theory Spec2Isabelle
  imports Complex_Main
begin

section \<open>JavaScript numbers\<close>

text \<open>
  The projectile lab (\<^verbatim>\<open>src/labs/projectiles/utils.ts\<close>) computes with JavaScript
  numbers. A number is modelled as a real, or one of the three non-finite values
  of IEEE-754. Arithmetic on finite values is exact real arithmetic: rounding and
  overflow are not modelled, \<^verbatim>\<open>Math.PI\<close> is \<open>pi\<close>, and the two zeros are one
  value (a division by zero takes the sign of the dividend). The non-finite values arise
  where the source's operations leave the reals: the square root of a negative number,
  a division by zero, and arithmetic on their results.
\<close>

datatype jsnum = Fin real | PInf | NInf | NaN

fun js_neg :: "jsnum \<Rightarrow> jsnum" where
  "js_neg (Fin a) = Fin (- a)"
| "js_neg PInf = NInf"
| "js_neg NInf = PInf"
| "js_neg NaN = NaN"

fun js_add :: "jsnum \<Rightarrow> jsnum \<Rightarrow> jsnum" where
  "js_add NaN b = NaN"
| "js_add a NaN = NaN"
| "js_add (Fin a) (Fin b) = Fin (a + b)"
| "js_add PInf NInf = NaN"
| "js_add NInf PInf = NaN"
| "js_add PInf b = PInf"
| "js_add a PInf = PInf"
| "js_add NInf b = NInf"
| "js_add a NInf = NInf"

definition js_sub :: "jsnum \<Rightarrow> jsnum \<Rightarrow> jsnum" where
  "js_sub a b = js_add a (js_neg b)"

fun js_mul :: "jsnum \<Rightarrow> jsnum \<Rightarrow> jsnum" where
  "js_mul NaN b = NaN"
| "js_mul a NaN = NaN"
| "js_mul (Fin a) (Fin b) = Fin (a * b)"
| "js_mul (Fin a) PInf = (if a = 0 then NaN else if 0 < a then PInf else NInf)"
| "js_mul (Fin a) NInf = (if a = 0 then NaN else if 0 < a then NInf else PInf)"
| "js_mul PInf (Fin b) = (if b = 0 then NaN else if 0 < b then PInf else NInf)"
| "js_mul NInf (Fin b) = (if b = 0 then NaN else if 0 < b then NInf else PInf)"
| "js_mul PInf PInf = PInf"
| "js_mul PInf NInf = NInf"
| "js_mul NInf PInf = NInf"
| "js_mul NInf NInf = PInf"

fun js_div :: "jsnum \<Rightarrow> jsnum \<Rightarrow> jsnum" where
  "js_div NaN b = NaN"
| "js_div a NaN = NaN"
| "js_div (Fin a) (Fin b) =
     (if b = 0 then (if a = 0 then NaN else if 0 < a then PInf else NInf)
      else Fin (a / b))"
| "js_div (Fin a) PInf = Fin 0"
| "js_div (Fin a) NInf = Fin 0"
| "js_div PInf (Fin b) = (if 0 \<le> b then PInf else NInf)"
| "js_div NInf (Fin b) = (if 0 \<le> b then NInf else PInf)"
| "js_div PInf PInf = NaN"
| "js_div PInf NInf = NaN"
| "js_div NInf PInf = NaN"
| "js_div NInf NInf = NaN"

text \<open>The comparisons \<^verbatim>\<open><=\<close> and \<^verbatim>\<open><\<close>: false whenever an operand is NaN.\<close>

fun js_le :: "jsnum \<Rightarrow> jsnum \<Rightarrow> bool" where
  "js_le NaN b = False"
| "js_le a NaN = False"
| "js_le (Fin a) (Fin b) = (a \<le> b)"
| "js_le NInf b = True"
| "js_le a PInf = True"
| "js_le PInf b = False"
| "js_le a NInf = False"

fun js_lt :: "jsnum \<Rightarrow> jsnum \<Rightarrow> bool" where
  "js_lt NaN b = False"
| "js_lt a NaN = False"
| "js_lt (Fin a) (Fin b) = (a < b)"
| "js_lt PInf b = False"
| "js_lt a NInf = False"
| "js_lt NInf b = True"
| "js_lt a PInf = True"

text \<open>A number is falsy (\<^verbatim>\<open>!n\<close>, \<^verbatim>\<open>n || d\<close>) when it is zero or NaN.\<close>

definition js_falsy :: "jsnum \<Rightarrow> bool" where
  "js_falsy n = (n = NaN \<or> n = Fin 0)"

fun isFinite :: "jsnum \<Rightarrow> bool" where
  "isFinite (Fin a) = True"
| "isFinite PInf = False"
| "isFinite NInf = False"
| "isFinite NaN = False"

fun Math_sqrt :: "jsnum \<Rightarrow> jsnum" where
  "Math_sqrt (Fin a) = (if a < 0 then NaN else Fin (sqrt a))"
| "Math_sqrt PInf = PInf"
| "Math_sqrt NInf = NaN"
| "Math_sqrt NaN = NaN"

fun Math_sin :: "jsnum \<Rightarrow> jsnum" where
  "Math_sin (Fin a) = Fin (sin a)"
| "Math_sin PInf = NaN"
| "Math_sin NInf = NaN"
| "Math_sin NaN = NaN"

fun Math_cos :: "jsnum \<Rightarrow> jsnum" where
  "Math_cos (Fin a) = Fin (cos a)"
| "Math_cos PInf = NaN"
| "Math_cos NInf = NaN"
| "Math_cos NaN = NaN"

fun Math_abs :: "jsnum \<Rightarrow> jsnum" where
  "Math_abs (Fin a) = Fin \<bar>a\<bar>"
| "Math_abs PInf = PInf"
| "Math_abs NInf = PInf"
| "Math_abs NaN = NaN"

text \<open>\<^verbatim>\<open>Math.pow(x, 2)\<close>: the source raises to no other power.\<close>

fun Math_pow2 :: "jsnum \<Rightarrow> jsnum" where
  "Math_pow2 (Fin a) = Fin (a\<^sup>2)"
| "Math_pow2 PInf = PInf"
| "Math_pow2 NInf = PInf"
| "Math_pow2 NaN = NaN"

text \<open>\<^verbatim>\<open>Math.atan2(y, x)\<close>, the angle of the point \<open>(x, y)\<close> in \<open>(-pi, pi]\<close>.\<close>

fun Math_atan2 :: "jsnum \<Rightarrow> jsnum \<Rightarrow> jsnum" where
  "Math_atan2 NaN x = NaN"
| "Math_atan2 y NaN = NaN"
| "Math_atan2 (Fin y) (Fin x) =
     (if 0 < x then Fin (arctan (y / x))
      else if x < 0 then (if 0 \<le> y then Fin (arctan (y / x) + pi) else Fin (arctan (y / x) - pi))
      else if 0 < y then Fin (pi / 2)
      else if y < 0 then Fin (- pi / 2)
      else Fin 0)"
| "Math_atan2 (Fin y) PInf = Fin 0"
| "Math_atan2 (Fin y) NInf = (if 0 \<le> y then Fin pi else Fin (- pi))"
| "Math_atan2 PInf (Fin x) = Fin (pi / 2)"
| "Math_atan2 NInf (Fin x) = Fin (- pi / 2)"
| "Math_atan2 PInf PInf = Fin (pi / 4)"
| "Math_atan2 PInf NInf = Fin (3 * pi / 4)"
| "Math_atan2 NInf PInf = Fin (- pi / 4)"
| "Math_atan2 NInf NInf = Fin (- 3 * pi / 4)"

section \<open>Constants and data model\<close>

text \<open>\<^verbatim>\<open>export const G = 9.81\<close> (constants.ts).\<close>

definition G :: jsnum where
  "G = Fin (981 / 100)"

text \<open>The interfaces of types.ts. A nullable field is an option.\<close>

record ProjectileState =
  i_u :: "jsnum option"
  i_theta :: "jsnum option"
  i_y0 :: "jsnum option"
  i_range :: "jsnum option"
  i_maxHeight :: "jsnum option"
  i_flightTime :: "jsnum option"

record SolvedVariables =
  s_u :: jsnum
  s_theta :: jsnum
  s_y0 :: jsnum
  s_range :: jsnum
  s_maxHeight :: jsnum
  s_flightTime :: jsnum
  s_ux :: jsnum
  s_uy :: jsnum

record TrajectoryPoint =
  p_x :: jsnum
  p_y :: jsnum
  p_t :: jsnum

section \<open>The solver\<close>

definition toRad :: "jsnum \<Rightarrow> jsnum" where
  "toRad deg = js_div (js_mul deg (Fin pi)) (Fin 180)"

definition toDeg :: "jsnum \<Rightarrow> jsnum" where
  "toDeg rad = js_div (js_mul rad (Fin 180)) (Fin pi)"

text \<open>\<^verbatim>\<open>inputs.y0 || 0\<close>: zero when the field is null, NaN or zero.\<close>

definition orZero :: "jsnum option \<Rightarrow> jsnum" where
  "orZero v = (case v of None \<Rightarrow> Fin 0 | Some n \<Rightarrow> if js_falsy n then Fin 0 else n)"

text \<open>
  \<open>solveProjectileSystem\<close>, with \<open>None\<close> for the \<^verbatim>\<open>null\<close> it returns when the
  inputs cannot be solved. The five cases are tried in the source's order; cases B to E
  call the function again on the inputs with \<open>u\<close> (and \<open>theta\<close>) filled in.
\<close>

function solveProjectileSystem :: "ProjectileState \<Rightarrow> SolvedVariables option" where
  "solveProjectileSystem inputs =
    (let y0 = orZero (i_y0 inputs) in
     if i_u inputs \<noteq> None \<and> i_theta inputs \<noteq> None then
       (let u = the (i_u inputs);
            theta = the (i_theta inputs);
            thetaRad = toRad theta;
            ux = js_mul u (Math_cos thetaRad);
            uy = js_mul u (Math_sin thetaRad);
            tPeak = js_div uy G;
            calculatedMaxHeight =
              js_sub (js_add y0 (js_mul uy tPeak)) (js_mul (js_mul (Fin (1 / 2)) G) (Math_pow2 tPeak));
            calculatedFlightTime =
              js_div (js_add uy (Math_sqrt (js_add (Math_pow2 uy) (js_mul (js_mul (Fin 2) G) y0)))) G;
            calculatedRange = js_mul ux calculatedFlightTime
        in Some \<lparr>s_u = u, s_theta = theta, s_y0 = y0, s_range = calculatedRange,
                 s_maxHeight = calculatedMaxHeight, s_flightTime = calculatedFlightTime,
                 s_ux = ux, s_uy = uy\<rparr>)
     else if i_range inputs \<noteq> None \<and> i_theta inputs \<noteq> None then
       (let range = the (i_range inputs);
            thetaRad = toRad (the (i_theta inputs));
            sin2Theta = Math_sin (js_mul (Fin 2) thetaRad)
        in if js_le sin2Theta (Fin (1 / 10000)) then None
           else (let calculatedU = Math_sqrt (js_div (js_mul range G) sin2Theta)
                 in solveProjectileSystem (inputs\<lparr>i_u := Some calculatedU, i_range := None\<rparr>)))
     else if i_maxHeight inputs \<noteq> None \<and> i_theta inputs \<noteq> None then
       (let maxHeight = the (i_maxHeight inputs);
            thetaRad = toRad (the (i_theta inputs));
            sinTheta = Math_sin thetaRad
        in if js_le (Math_abs sinTheta) (Fin (1 / 10000)) then None
           else (let calculatedU =
                       Math_sqrt (js_div (js_mul (js_mul (Fin 2) G) maxHeight) (Math_pow2 sinTheta))
                 in solveProjectileSystem (inputs\<lparr>i_u := Some calculatedU, i_maxHeight := None\<rparr>)))
     else if i_flightTime inputs \<noteq> None \<and> i_theta inputs \<noteq> None then
       (let flightTime = the (i_flightTime inputs);
            thetaRad = toRad (the (i_theta inputs));
            sinTheta = Math_sin thetaRad
        in if js_le (Math_abs sinTheta) (Fin (1 / 10000)) then None
           else (let calculatedU = js_div (js_mul G flightTime) (js_mul (Fin 2) sinTheta)
                 in solveProjectileSystem (inputs\<lparr>i_u := Some calculatedU, i_flightTime := None\<rparr>)))
     else if i_range inputs \<noteq> None \<and> i_flightTime inputs \<noteq> None then
       (let range = the (i_range inputs);
            flightTime = the (i_flightTime inputs);
            ux = js_div range flightTime;
            uy = js_div (js_mul G flightTime) (Fin 2);
            calculatedU = Math_sqrt (js_add (Math_pow2 ux) (Math_pow2 uy));
            calculatedTheta = toDeg (Math_atan2 uy ux)
        in solveProjectileSystem
             (inputs\<lparr>i_u := Some calculatedU, i_theta := Some calculatedTheta,
                      i_range := None, i_flightTime := None\<rparr>))
     else None)"
  by pat_completeness auto
termination
  by (relation "measure (\<lambda>inputs. if i_u inputs \<noteq> None \<and> i_theta inputs \<noteq> None then 0 else 1)")
     auto

declare solveProjectileSystem.simps [simp del]

text \<open>
  The recursive calls of \<open>solveProjectileSystem\<close>, made explicit: the same case
  analysis, returning the arguments of the calls the solver makes on \<open>inputs\<close>, in
  order (the call it makes, then the calls that call makes).
\<close>

function solveCalls :: "ProjectileState \<Rightarrow> ProjectileState list" where
  "solveCalls inputs =
    (if i_u inputs \<noteq> None \<and> i_theta inputs \<noteq> None then []
     else if i_range inputs \<noteq> None \<and> i_theta inputs \<noteq> None then
       (let range = the (i_range inputs);
            thetaRad = toRad (the (i_theta inputs));
            sin2Theta = Math_sin (js_mul (Fin 2) thetaRad)
        in if js_le sin2Theta (Fin (1 / 10000)) then []
           else (let calculatedU = Math_sqrt (js_div (js_mul range G) sin2Theta);
                     arg = inputs\<lparr>i_u := Some calculatedU, i_range := None\<rparr>
                 in arg # solveCalls arg))
     else if i_maxHeight inputs \<noteq> None \<and> i_theta inputs \<noteq> None then
       (let maxHeight = the (i_maxHeight inputs);
            thetaRad = toRad (the (i_theta inputs));
            sinTheta = Math_sin thetaRad
        in if js_le (Math_abs sinTheta) (Fin (1 / 10000)) then []
           else (let calculatedU =
                       Math_sqrt (js_div (js_mul (js_mul (Fin 2) G) maxHeight) (Math_pow2 sinTheta));
                     arg = inputs\<lparr>i_u := Some calculatedU, i_maxHeight := None\<rparr>
                 in arg # solveCalls arg))
     else if i_flightTime inputs \<noteq> None \<and> i_theta inputs \<noteq> None then
       (let flightTime = the (i_flightTime inputs);
            thetaRad = toRad (the (i_theta inputs));
            sinTheta = Math_sin thetaRad
        in if js_le (Math_abs sinTheta) (Fin (1 / 10000)) then []
           else (let calculatedU = js_div (js_mul G flightTime) (js_mul (Fin 2) sinTheta);
                     arg = inputs\<lparr>i_u := Some calculatedU, i_flightTime := None\<rparr>
                 in arg # solveCalls arg))
     else if i_range inputs \<noteq> None \<and> i_flightTime inputs \<noteq> None then
       (let range = the (i_range inputs);
            flightTime = the (i_flightTime inputs);
            ux = js_div range flightTime;
            uy = js_div (js_mul G flightTime) (Fin 2);
            calculatedU = Math_sqrt (js_add (Math_pow2 ux) (Math_pow2 uy));
            calculatedTheta = toDeg (Math_atan2 uy ux);
            arg = inputs\<lparr>i_u := Some calculatedU, i_theta := Some calculatedTheta,
                           i_range := None, i_flightTime := None\<rparr>
        in arg # solveCalls arg)
     else [])"
  by pat_completeness auto
termination
  by (relation "measure (\<lambda>inputs. if i_u inputs \<noteq> None \<and> i_theta inputs \<noteq> None then 0 else 1)")
     auto

declare solveCalls.simps [simp del]

section \<open>The trajectory sampler\<close>

text \<open>
  \<open>generateTrajectory\<close>. The body of its loop, for the index \<open>i\<close>, is the sample it
  pushes; the loop runs \<open>i\<close> from 0 while \<open>i \<le> points\<close>. The parameter \<open>points\<close> is
  an integer (the spec's \<open>count: int\<close>), 100 when it is not passed.
\<close>

definition trajectoryPoint :: "SolvedVariables \<Rightarrow> jsnum \<Rightarrow> int \<Rightarrow> TrajectoryPoint" where
  "trajectoryPoint vars dt i =
    (let t = js_mul (Fin (of_int i)) dt;
         x = js_mul (s_ux vars) t;
         y = js_sub (js_add (s_y0 vars) (js_mul (s_uy vars) t))
                    (js_mul (js_mul (js_mul (Fin (1 / 2)) G) t) t)
     in \<lparr>p_x = x, p_y = (if js_lt y (Fin 0) then Fin 0 else y), p_t = t\<rparr>)"

function trajectoryLoop ::
  "SolvedVariables \<Rightarrow> jsnum \<Rightarrow> int \<Rightarrow> int \<Rightarrow> TrajectoryPoint list \<Rightarrow> TrajectoryPoint list" where
  "trajectoryLoop vars dt points i data =
    (if i \<le> points then trajectoryLoop vars dt points (i + 1) (data @ [trajectoryPoint vars dt i])
     else data)"
  by pat_completeness auto
termination
  by (relation "measure (\<lambda>(vars, dt, points, i, data). nat (points + 1 - i))") auto

declare trajectoryLoop.simps [simp del]

definition generateTrajectory :: "SolvedVariables \<Rightarrow> int option \<Rightarrow> TrajectoryPoint list" where
  "generateTrajectory vars pts =
    (let points = (case pts of None \<Rightarrow> 100 | Some n \<Rightarrow> n) in
     if js_falsy (s_flightTime vars) \<or> js_le (s_flightTime vars) (Fin 0) then []
     else (let dt = js_div (s_flightTime vars) (Fin (of_int points))
           in trajectoryLoop vars dt points 0 []))"

section \<open>The step synthesizer\<close>

text \<open>
  \<open>generateSteps\<close> builds strings from fixed text and numbers. A string is modelled
  as the list of its pieces: literal text, a LaTeX control word (\<open>Tex ''frac''\<close> is a
  backslash followed by \<open>frac\<close>), a number printed by \<^verbatim>\<open>toFixed(2)\<close>, and a number
  printed by the default conversion of a template literal. A \<open>Step\<close> of shared.ts
  has an explanation and a formula; every step the function builds has both.
\<close>

datatype piece = Txt string | Tex string | Fixed2 jsnum | Num jsnum

record Step =
  explanation :: "piece list"
  latex :: "piece list"

text \<open>The optional argument \<^verbatim>\<open>extraParams?: { time?: number, distance?: number }\<close>.\<close>

record ExtraParams =
  e_time :: "jsnum option"
  e_distance :: "jsnum option"

text \<open>\<^verbatim>\<open>extraParams?.time\<close> and \<^verbatim>\<open>extraParams?.distance\<close>, with \<open>None\<close> for undefined.\<close>

definition extraTime :: "ExtraParams option \<Rightarrow> jsnum option" where
  "extraTime extraParams = (case extraParams of None \<Rightarrow> None | Some e \<Rightarrow> e_time e)"

definition extraDistance :: "ExtraParams option \<Rightarrow> jsnum option" where
  "extraDistance extraParams = (case extraParams of None \<Rightarrow> None | Some e \<Rightarrow> e_distance e)"

text \<open>
  The number of hundredths that \<^verbatim>\<open>toFixed(2)\<close> prints for a finite number: the nearest
  integer to \<open>100 x\<close>, the larger one on a tie, computed on the absolute value.
\<close>

definition toFixedHundredths :: "real \<Rightarrow> int" where
  "toFixedHundredths x = (if x < 0 then - \<lfloor>100 * (- x) + 1 / 2\<rfloor> else \<lfloor>100 * x + 1 / 2\<rfloor>)"

text \<open>The branches of \<open>generateSteps\<close>, one definition for each target, in the source's order.\<close>

definition stepsU :: "ProjectileState \<Rightarrow> SolvedVariables \<Rightarrow> jsnum \<Rightarrow> Step list" where
  "stepsU inputs solved theta =
    (if i_range inputs \<noteq> None \<and> i_theta inputs \<noteq> None then
       [\<lparr>explanation =
           [Txt ''We know the Range ($R$) and Launch Angle ($'', Tex ''theta'',
             Txt ''$). We can use the range equation.''],
         latex =
           [Txt ''R = '', Tex ''frac'', Txt ''{u^2 '', Tex ''sin'', Txt ''(2'', Tex ''theta'',
             Txt '')}{g}'']\<rparr>,
        \<lparr>explanation =
           [Txt ''Rearrange the equation to solve for Initial Velocity ($u$):''],
         latex =
           [Txt ''u = '', Tex ''sqrt'', Txt ''{'', Tex ''frac'', Txt ''{R '', Tex ''cdot'',
             Txt '' g}{'', Tex ''sin'', Txt ''(2'', Tex ''theta'', Txt '')}}'']\<rparr>,
        \<lparr>explanation =
           [Txt ''Substitute $R = '', Fixed2 (the (i_range inputs)), Txt ''$, $g = '', Num G,
             Txt ''$, $'', Tex ''theta'', Txt '' = '', Fixed2 theta, Txt ''^'', Tex ''circ'',
             Txt ''$:''],
         latex =
           [Txt ''u = '', Tex ''sqrt'', Txt ''{'', Tex ''frac'', Txt ''{'',
             Fixed2 (the (i_range inputs)), Txt '' '', Tex ''cdot'', Txt '' '', Num G,
             Txt ''}{'', Tex ''sin'', Txt ''('', Num (js_mul (Fin 2) theta), Txt '')}}'']\<rparr>,
        \<lparr>explanation =
           [Txt ''Calculate the result:''],
         latex =
           [Txt ''u '', Tex ''approx'', Txt '' '', Fixed2 (s_u solved), Txt '' '',
             Tex ''text'', Txt ''{ m/s}'']\<rparr>]
     else if i_maxHeight inputs \<noteq> None \<and> i_theta inputs \<noteq> None then
       [\<lparr>explanation =
           [Txt ''We know the Maximum Height ($H$) and Angle ($'', Tex ''theta'',
             Txt ''$). We can use the max height equation.''],
         latex =
           [Txt ''H = '', Tex ''frac'', Txt ''{u^2 '', Tex ''sin'', Txt ''^2('', Tex ''theta'',
             Txt '')}{2g}'']\<rparr>,
        \<lparr>explanation =
           [Txt ''Rearrange to solve for $u$:''],
         latex =
           [Txt ''u = '', Tex ''sqrt'', Txt ''{'', Tex ''frac'', Txt ''{2gH}{'', Tex ''sin'',
             Txt ''^2('', Tex ''theta'', Txt '')}}'']\<rparr>,
        \<lparr>explanation =
           [Txt ''Substitute and solve:''],
         latex =
           [Txt ''u = '', Tex ''sqrt'', Txt ''{'', Tex ''frac'', Txt ''{2 '', Tex ''cdot'',
             Txt '' '', Num G, Txt '' '', Tex ''cdot'', Txt '' '',
             Fixed2 (the (i_maxHeight inputs)), Txt ''}{'', Tex ''sin'', Txt ''^2('',
             Fixed2 theta, Txt '')}} '', Tex ''approx'', Txt '' '', Fixed2 (s_u solved),
             Txt '' '', Tex ''text'', Txt ''{ m/s}'']\<rparr>]
     else if i_flightTime inputs \<noteq> None \<and> i_theta inputs \<noteq> None then
       [\<lparr>explanation =
           [Txt ''We know Flight Time ($t$) and Angle ($'', Tex ''theta'',
             Txt ''$). Use the time of flight equation.''],
         latex =
           [Txt ''t = '', Tex ''frac'', Txt ''{2 u '', Tex ''sin'', Txt ''('', Tex ''theta'',
             Txt '')}{g}'']\<rparr>,
        \<lparr>explanation =
           [Txt ''Rearrange to solve for $u$:''],
         latex =
           [Txt ''u = '', Tex ''frac'', Txt ''{g '', Tex ''cdot'', Txt '' t}{2 '', Tex ''sin'',
             Txt ''('', Tex ''theta'', Txt '')}'']\<rparr>,
        \<lparr>explanation =
           [Txt ''Substitute and solve:''],
         latex =
           [Txt ''u = '', Tex ''frac'', Txt ''{'', Num G, Txt '' '', Tex ''cdot'', Txt '' '',
             Fixed2 (the (i_flightTime inputs)), Txt ''}{2 '', Tex ''sin'', Txt ''('',
             Fixed2 theta, Txt '')} '', Tex ''approx'', Txt '' '', Fixed2 (s_u solved),
             Txt '' '', Tex ''text'', Txt ''{ m/s}'']\<rparr>]
     else if i_range inputs \<noteq> None \<and> i_flightTime inputs \<noteq> None then
       [\<lparr>explanation =
           [Txt ''We know Range ($R$) and Flight Time ($t$), but not the angle or velocity. We must find components first.''],
         latex =
           [Txt ''u_x = '', Tex ''frac'', Txt ''{R}{t}, '', Tex ''quad'', Txt '' u_y = '',
             Tex ''frac'', Txt ''{gt}{2}'']\<rparr>,
        \<lparr>explanation =
           [Txt ''Calculate components:''],
         latex =
           [Txt ''u_x = '', Tex ''frac'', Txt ''{'', Fixed2 (the (i_range inputs)), Txt ''}{'',
             Fixed2 (the (i_flightTime inputs)), Txt ''} = '', Fixed2 (s_ux solved), Txt '', '',
             Tex ''quad'', Txt '' u_y = '', Tex ''frac'', Txt ''{'', Num G, Txt '' '',
             Tex ''cdot'', Txt '' '', Fixed2 (the (i_flightTime inputs)), Txt ''}{2} = '',
             Fixed2 (s_uy solved)]\<rparr>,
        \<lparr>explanation =
           [Txt ''Combine components to find total velocity $u$:''],
         latex =
           [Txt ''u = '', Tex ''sqrt'', Txt ''{u_x^2 + u_y^2}'']\<rparr>,
        \<lparr>explanation =
           [Txt ''Solve:''],
         latex =
           [Txt ''u = '', Tex ''sqrt'', Txt ''{'', Fixed2 (s_ux solved), Txt ''^2 + '',
             Fixed2 (s_uy solved), Txt ''^2} '', Tex ''approx'', Txt '' '', Fixed2 (s_u solved),
             Txt '' '', Tex ''text'', Txt ''{ m/s}'']\<rparr>]
     else [])"

definition stepsTheta :: "ProjectileState \<Rightarrow> SolvedVariables \<Rightarrow> Step list" where
  "stepsTheta inputs solved =
    (if i_range inputs \<noteq> None \<and> i_flightTime inputs \<noteq> None then
       [\<lparr>explanation =
           [Txt ''We calculated the horizontal and vertical velocity components ($u_x, u_y$) from Range and Time.''],
         latex =
           [Txt ''u_x = '', Fixed2 (s_ux solved), Txt '', '', Tex ''quad'', Txt '' u_y = '',
             Fixed2 (s_uy solved)]\<rparr>,
        \<lparr>explanation =
           [Txt ''Use trigonometry to find the angle $'', Tex ''theta'', Txt ''$:''],
         latex =
           [Tex ''theta'', Txt '' = '', Tex ''tan'', Txt ''^{-1}'', Tex ''left'', Txt ''('',
             Tex ''frac'', Txt ''{u_y}{u_x}'', Tex ''right'', Txt '')'']\<rparr>,
        \<lparr>explanation =
           [Txt ''Substitute and solve:''],
         latex =
           [Tex ''theta'', Txt '' = '', Tex ''tan'', Txt ''^{-1}'', Tex ''left'', Txt ''('',
             Tex ''frac'', Txt ''{'', Fixed2 (s_uy solved), Txt ''}{'', Fixed2 (s_ux solved),
             Txt ''}'', Tex ''right'', Txt '') '', Tex ''approx'', Txt '' '',
             Fixed2 (s_theta solved), Txt ''^'', Tex ''circ'']\<rparr>]
     else [])"

definition stepsRange :: "SolvedVariables \<Rightarrow> Step list" where
  "stepsRange solved =
     [\<lparr>explanation =
         [Txt ''Use the standard Range equation for projectile motion.''],
       latex =
         [Txt ''R = '', Tex ''frac'', Txt ''{u^2 '', Tex ''sin'', Txt ''(2'', Tex ''theta'',
           Txt '')}{g}'']\<rparr>,
      \<lparr>explanation =
         [Txt ''Substitute $u = '', Fixed2 (s_u solved), Txt ''$ and $'', Tex ''theta'',
           Txt '' = '', Fixed2 (s_theta solved), Txt ''$:''],
       latex =
         [Txt ''R = '', Tex ''frac'', Txt ''{'', Fixed2 (s_u solved), Txt ''^2 '', Tex ''sin'',
           Txt ''(2 '', Tex ''cdot'', Txt '' '', Fixed2 (s_theta solved), Txt '')}{'', Num G,
           Txt ''}'']\<rparr>,
      \<lparr>explanation =
         [Txt ''Solve:''],
       latex =
         [Txt ''R '', Tex ''approx'', Txt '' '', Fixed2 (s_range solved), Txt '' '',
           Tex ''text'', Txt ''{ m}'']\<rparr>]"

definition stepsMaxHeight :: "SolvedVariables \<Rightarrow> Step list" where
  "stepsMaxHeight solved =
     [\<lparr>explanation =
         [Txt ''Use the Maximum Height equation.''],
       latex =
         [Txt ''H = '', Tex ''frac'', Txt ''{u^2 '', Tex ''sin'', Txt ''^2('', Tex ''theta'',
           Txt '')}{2g}'']\<rparr>,
      \<lparr>explanation =
         [Txt ''Substitute $u = '', Fixed2 (s_u solved), Txt ''$ and $'', Tex ''theta'',
           Txt '' = '', Fixed2 (s_theta solved), Txt ''$:''],
       latex =
         [Txt ''H = '', Tex ''frac'', Txt ''{'', Fixed2 (s_u solved), Txt ''^2 '', Tex ''sin'',
           Txt ''^2('', Fixed2 (s_theta solved), Txt '')}{2 '', Tex ''cdot'', Txt '' '', Num G,
           Txt ''}'']\<rparr>,
      \<lparr>explanation =
         [Txt ''Solve:''],
       latex =
         [Txt ''H '', Tex ''approx'', Txt '' '', Fixed2 (s_maxHeight solved), Txt '' '',
           Tex ''text'', Txt ''{ m}'']\<rparr>]"

definition stepsFlightTime :: "SolvedVariables \<Rightarrow> Step list" where
  "stepsFlightTime solved =
     [\<lparr>explanation =
         [Txt ''The time of flight is determined by the vertical component of velocity ($u_y$).''],
       latex =
         [Txt ''t = '', Tex ''frac'', Txt ''{2 u_y}{g} = '', Tex ''frac'', Txt ''{2u '',
           Tex ''sin'', Txt ''('', Tex ''theta'', Txt '')}{g}'']\<rparr>,
      \<lparr>explanation =
         [Txt ''First, find the vertical velocity $u_y$:''],
       latex =
         [Txt ''u_y = u '', Tex ''sin'', Txt ''('', Tex ''theta'', Txt '') = '',
           Fixed2 (s_u solved), Txt '' '', Tex ''sin'', Txt ''('', Fixed2 (s_theta solved),
           Txt '') '', Tex ''approx'', Txt '' '', Fixed2 (s_uy solved)]\<rparr>,
      \<lparr>explanation =
         [Txt ''Substitute $u_y$ into the time equation:''],
       latex =
         [Txt ''t = '', Tex ''frac'', Txt ''{2 '', Tex ''cdot'', Txt '' '',
           Fixed2 (s_uy solved), Txt ''}{'', Num G, Txt ''}'']\<rparr>,
      \<lparr>explanation =
         [Txt ''Solve:''],
       latex =
         [Txt ''t '', Tex ''approx'', Txt '' '', Fixed2 (s_flightTime solved), Txt '' '',
           Tex ''text'', Txt ''{ s}'']\<rparr>]"

definition stepsHeightAtTime :: "SolvedVariables \<Rightarrow> jsnum \<Rightarrow> Step list" where
  "stepsHeightAtTime solved t =
    (let uy = js_mul (s_u solved) (Math_sin (toRad (s_theta solved)));
         y = js_sub (js_add (orZero (Some (s_y0 solved))) (js_mul uy t))
                    (js_mul (js_mul (Fin (1 / 2)) G) (Math_pow2 t))
     in [\<lparr>explanation =
            [Txt ''We need to find the vertical position $s_y$ at time $t = '', Fixed2 t,
              Txt ''$ s.''],
          latex =
            [Txt ''s_y = u_y t - '', Tex ''frac'', Txt ''{1}{2} g t^2'']\<rparr>,
         \<lparr>explanation =
            [Txt ''First, ensure we have the initial vertical velocity $u_y$:''],
          latex =
            [Txt ''u_y = u '', Tex ''sin'', Txt ''('', Tex ''theta'', Txt '') = '',
              Fixed2 (s_u solved), Txt '' '', Tex ''sin'', Txt ''('', Fixed2 (s_theta solved),
              Txt '') '', Tex ''approx'', Txt '' '', Fixed2 uy, Txt '' '', Tex ''text'',
              Txt ''{ m/s}'']\<rparr>,
         \<lparr>explanation =
            [Txt ''Now substitute values into the displacement equation:''],
          latex =
            [Txt ''s_y = ('', Fixed2 uy, Txt '' '', Tex ''cdot'', Txt '' '', Fixed2 t,
              Txt '') - (0.5 '', Tex ''cdot'', Txt '' '', Num G, Txt '' '', Tex ''cdot'',
              Txt '' '', Fixed2 t, Txt ''^2)'']\<rparr>,
         \<lparr>explanation =
            [Txt ''Calculate:''],
          latex =
            [Txt ''s_y '', Tex ''approx'', Txt '' '', Fixed2 y, Txt '' '', Tex ''text'',
              Txt ''{ m}'']\<rparr>])"

definition stepsVelocityAtTime :: "SolvedVariables \<Rightarrow> jsnum \<Rightarrow> Step list" where
  "stepsVelocityAtTime solved t =
    (let uy0 = js_mul (s_u solved) (Math_sin (toRad (s_theta solved)));
         uyt = js_sub uy0 (js_mul G t);
         ux = js_mul (s_u solved) (Math_cos (toRad (s_theta solved)));
         v = Math_sqrt (js_add (js_mul ux ux) (js_mul uyt uyt))
     in [\<lparr>explanation =
            [Txt ''To find velocity at $t = '', Fixed2 t,
              Txt ''$ s, we need both horizontal ($v_x$) and vertical ($v_y$) components.''],
          latex =
            [Txt ''v = '', Tex ''sqrt'', Txt ''{v_x^2 + v_y^2}'']\<rparr>,
         \<lparr>explanation =
            [Txt ''Horizontal velocity is constant:''],
          latex =
            [Txt ''v_x = u_x = u '', Tex ''cos'', Txt ''('', Tex ''theta'', Txt '') = '',
              Fixed2 (s_u solved), Txt '' '', Tex ''cos'', Txt ''('', Fixed2 (s_theta solved),
              Txt '') '', Tex ''approx'', Txt '' '', Fixed2 ux, Txt '' '', Tex ''text'',
              Txt ''{ m/s}'']\<rparr>,
         \<lparr>explanation =
            [Txt ''Vertical velocity changes due to gravity:''],
          latex =
            [Txt ''v_y = u_y - gt = ('', Fixed2 (s_u solved), Txt '' '', Tex ''sin'',
              Txt ''('', Fixed2 (s_theta solved), Txt '')) - ('', Num G, Txt '' '',
              Tex ''cdot'', Txt '' '', Fixed2 t, Txt '')'']\<rparr>,
         \<lparr>explanation =
            [Txt ''Calculate $v_y$:''],
          latex =
            [Txt ''v_y '', Tex ''approx'', Txt '' '', Fixed2 uy0, Txt '' - '',
              Fixed2 (js_mul G t), Txt '' = '', Fixed2 uyt, Txt '' '', Tex ''text'',
              Txt ''{ m/s}'']\<rparr>,
         \<lparr>explanation =
            [Txt ''Combine components to find total speed:''],
          latex =
            [Txt ''v = '', Tex ''sqrt'', Txt ''{('', Fixed2 ux, Txt '')^2 + ('', Fixed2 uyt,
              Txt '')^2} '', Tex ''approx'', Txt '' '', Fixed2 v, Txt '' '', Tex ''text'',
              Txt ''{ m/s}'']\<rparr>])"

definition stepsTimeToMaxHeight :: "SolvedVariables \<Rightarrow> Step list" where
  "stepsTimeToMaxHeight solved =
    (let tPeak = js_div (s_flightTime solved) (Fin 2)
     in [\<lparr>explanation =
            [Txt ''At maximum height, the vertical velocity is zero ($v_y = 0$).''],
          latex =
            [Txt ''v_y = u_y - gt = 0 '', Tex ''Rightarrow'', Txt '' t = '', Tex ''frac'',
              Txt ''{u_y}{g}'']\<rparr>,
         \<lparr>explanation =
            [Txt ''Calculate initial vertical velocity $u_y$:''],
          latex =
            [Txt ''u_y = u '', Tex ''sin'', Txt ''('', Tex ''theta'', Txt '') = '',
              Fixed2 (s_u solved), Txt '' '', Tex ''sin'', Txt ''('', Fixed2 (s_theta solved),
              Txt '') '', Tex ''approx'', Txt '' '', Fixed2 (s_uy solved)]\<rparr>,
         \<lparr>explanation =
            [Txt ''Divide by gravity:''],
          latex =
            [Txt ''t = '', Tex ''frac'', Txt ''{'', Fixed2 (s_uy solved), Txt ''}{'', Num G,
              Txt ''}'']\<rparr>,
         \<lparr>explanation =
            [Txt ''Solve:''],
          latex =
            [Txt ''t '', Tex ''approx'', Txt '' '', Fixed2 tPeak, Txt '' '', Tex ''text'',
              Txt ''{ s}'']\<rparr>])"

definition stepsDistanceAtTime :: "SolvedVariables \<Rightarrow> jsnum \<Rightarrow> Step list" where
  "stepsDistanceAtTime solved t =
    (let ux = js_mul (s_u solved) (Math_cos (toRad (s_theta solved)));
         x = js_mul ux t
     in [\<lparr>explanation =
            [Txt ''We want to find the horizontal distance $s_x$ at time $t = '', Fixed2 t,
              Txt ''$ s. Horizontal velocity is constant.''],
          latex =
            [Txt ''s_x = u_x '', Tex ''cdot'', Txt '' t'']\<rparr>,
         \<lparr>explanation =
            [Txt ''Calculate horizontal velocity $u_x$:''],
          latex =
            [Txt ''u_x = u '', Tex ''cos'', Txt ''('', Tex ''theta'', Txt '') = '',
              Fixed2 (s_u solved), Txt '' '', Tex ''cos'', Txt ''('', Fixed2 (s_theta solved),
              Txt '') '', Tex ''approx'', Txt '' '', Fixed2 ux, Txt '' '', Tex ''text'',
              Txt ''{ m/s}'']\<rparr>,
         \<lparr>explanation =
            [Txt ''Substitute and solve:''],
          latex =
            [Txt ''s_x = '', Fixed2 ux, Txt '' '', Tex ''cdot'', Txt '' '', Fixed2 t,
              Txt '' '', Tex ''approx'', Txt '' '', Fixed2 x, Txt '' '', Tex ''text'',
              Txt ''{ m}'']\<rparr>])"

definition stepsTimeToDistance :: "SolvedVariables \<Rightarrow> jsnum \<Rightarrow> Step list" where
  "stepsTimeToDistance solved x =
    (let ux = js_mul (s_u solved) (Math_cos (toRad (s_theta solved)));
         t = js_div x ux
     in [\<lparr>explanation =
            [Txt ''We want to find the time $t$ it takes to reach a horizontal distance $s_x = '',
              Fixed2 x, Txt ''$ m.''],
          latex =
            [Txt ''s_x = u_x '', Tex ''cdot'', Txt '' t '', Tex ''Rightarrow'', Txt '' t = '',
              Tex ''frac'', Txt ''{s_x}{u_x}'']\<rparr>,
         \<lparr>explanation =
            [Txt ''Calculate horizontal velocity $u_x$:''],
          latex =
            [Txt ''u_x = u '', Tex ''cos'', Txt ''('', Tex ''theta'', Txt '') = '',
              Fixed2 (s_u solved), Txt '' '', Tex ''cos'', Txt ''('', Fixed2 (s_theta solved),
              Txt '') '', Tex ''approx'', Txt '' '', Fixed2 ux, Txt '' '', Tex ''text'',
              Txt ''{ m/s}'']\<rparr>,
         \<lparr>explanation =
            [Txt ''Substitute and solve:''],
          latex =
            [Txt ''t = '', Tex ''frac'', Txt ''{'', Fixed2 x, Txt ''}{'', Fixed2 ux,
              Txt ''} '', Tex ''approx'', Txt '' '', Fixed2 t, Txt '' '', Tex ''text'',
              Txt ''{ s}'']\<rparr>])"

definition generateSteps ::
  "string \<Rightarrow> ProjectileState \<Rightarrow> SolvedVariables \<Rightarrow> ExtraParams option \<Rightarrow> Step list" where
  "generateSteps target inputs solved extraParams =
    (let theta = (case i_theta inputs of None \<Rightarrow> s_theta solved | Some th \<Rightarrow> th) in
     if target = ''u'' then stepsU inputs solved theta
     else if target = ''theta'' then stepsTheta inputs solved
     else if target = ''range'' then stepsRange solved
     else if target = ''maxHeight'' then stepsMaxHeight solved
     else if target = ''flightTime'' then stepsFlightTime solved
     else if target = ''heightAtTime'' \<and> extraTime extraParams \<noteq> None then
       stepsHeightAtTime solved (the (extraTime extraParams))
     else if target = ''velocityAtTime'' \<and> extraTime extraParams \<noteq> None then
       stepsVelocityAtTime solved (the (extraTime extraParams))
     else if target = ''timeToMaxHeight'' then stepsTimeToMaxHeight solved
     else if target = ''distanceAtTime'' \<and> extraTime extraParams \<noteq> None then
       stepsDistanceAtTime solved (the (extraTime extraParams))
     else if target = ''timeToDistance'' \<and> extraDistance extraParams \<noteq> None then
       stepsTimeToDistance solved (the (extraDistance extraParams))
     else [])"

section \<open>Properties of the solver\<close>

lemma toRad_Fin: "toRad (Fin d) = Fin (d * pi / 180)"
  by (simp add: toRad_def)

lemma solve_caseA:
  assumes "i_u inputs = Some u" "i_theta inputs = Some theta"
  shows "solveProjectileSystem inputs =
    (let y0 = orZero (i_y0 inputs);
         thetaRad = toRad theta;
         ux = js_mul u (Math_cos thetaRad);
         uy = js_mul u (Math_sin thetaRad);
         tPeak = js_div uy G
     in Some \<lparr>s_u = u, s_theta = theta, s_y0 = y0,
              s_range = js_mul ux (js_div (js_add uy (Math_sqrt (js_add (Math_pow2 uy) (js_mul (js_mul (Fin 2) G) y0)))) G),
              s_maxHeight = js_sub (js_add y0 (js_mul uy tPeak)) (js_mul (js_mul (Fin (1 / 2)) G) (Math_pow2 tPeak)),
              s_flightTime = js_div (js_add uy (Math_sqrt (js_add (Math_pow2 uy) (js_mul (js_mul (Fin 2) G) y0)))) G,
              s_ux = ux, s_uy = uy\<rparr>)"
  using assms by (subst solveProjectileSystem.simps) (simp add: Let_def)

text \<open>
  C1. When \<open>u\<close> and \<open>theta\<close> are present and finite, and \<open>y0\<close> is absent (read as
  0) or finite, the solver returns a solved state, with \<open>ux = u cos theta\<close>,
  \<open>uy = u sin theta\<close> (theta converted to radians),
  \<open>maxHeight = y0 + uy tPeak - g tPeak\<^sup>2 / 2\<close> for \<open>tPeak = uy / g\<close>,
  \<open>flightTime = (uy + sqrt (uy\<^sup>2 + 2 g y0)) / g\<close> and \<open>range = ux flightTime\<close>, for
  \<open>g = 9.81\<close>. The flight time is that quotient as the program computes it; it is the
  real number of the same formula whenever the square root's argument is not negative.
\<close>

theorem solve_standard_model:
  assumes "i_u inputs = Some (Fin ur)" and "i_theta inputs = Some (Fin th)"
    and "i_y0 inputs = None \<and> yr = 0 \<or> i_y0 inputs = Some (Fin yr)"
  shows "\<exists>r. solveProjectileSystem inputs = Some r \<and>
    (let g = 981 / 100;
         ux = ur * cos (th * pi / 180);
         uy = ur * sin (th * pi / 180);
         tPeak = uy / g
     in s_u r = Fin ur \<and> s_theta r = Fin th \<and> s_y0 r = Fin yr \<and>
        s_ux r = Fin ux \<and> s_uy r = Fin uy \<and>
        s_maxHeight r = Fin (yr + uy * tPeak - 1 / 2 * g * tPeak\<^sup>2) \<and>
        s_flightTime r = js_div (js_add (Fin uy) (Math_sqrt (Fin (uy\<^sup>2 + 2 * g * yr)))) (Fin g) \<and>
        (0 \<le> uy\<^sup>2 + 2 * g * yr \<longrightarrow> s_flightTime r = Fin ((uy + sqrt (uy\<^sup>2 + 2 * g * yr)) / g)) \<and>
        s_range r = js_mul (s_ux r) (s_flightTime r))"
proof -
  have y: "orZero (i_y0 inputs) = Fin yr"
    using assms(3) by (auto simp: orZero_def js_falsy_def)
  show ?thesis
    by (simp add: solve_caseA [OF assms(1,2)] y toRad_Fin G_def Let_def js_sub_def)
qed

theorem solve_standard_model_witness:
  "\<exists>r. solveProjectileSystem
          \<lparr>i_u = Some (Fin (981 / 50)), i_theta = Some (Fin 30), i_y0 = Some (Fin (2943 / 200)),
           i_range = None, i_maxHeight = None, i_flightTime = None\<rparr> = Some r \<and>
        s_uy r = Fin (981 / 100) \<and> s_maxHeight r = Fin (981 / 50) \<and> s_flightTime r = Fin 3 \<and>
        s_range r = js_mul (s_ux r) (Fin 3)"
proof -
  have sn: "sin (30 * pi / 180 :: real) = 1 / 2"
    by (simp add: sin_30)
  have sq: "sqrt ((981 / 50 * (1 / 2))\<^sup>2 + 2 * (981 / 100) * (2943 / 200)) = 981 / 50"
    by (rule real_sqrt_unique) (simp_all add: power2_eq_square)
  show ?thesis
    using solve_standard_model [of "\<lparr>i_u = Some (Fin (981 / 50)), i_theta = Some (Fin 30),
        i_y0 = Some (Fin (2943 / 200)), i_range = None, i_maxHeight = None, i_flightTime = None\<rparr>"
        "981 / 50" 30 "2943 / 200"]
    unfolding Let_def sn sq
    by (auto simp: power2_eq_square)
qed

lemma solveCalls_caseA: "i_u a \<noteq> None \<Longrightarrow> i_theta a \<noteq> None \<Longrightarrow> solveCalls a = []"
  by (subst solveCalls.simps) simp

lemma solve_caseA_Some: "i_u a \<noteq> None \<Longrightarrow> i_theta a \<noteq> None \<Longrightarrow> solveProjectileSystem a \<noteq> None"
  by (subst solveProjectileSystem.simps) (simp add: Let_def)

lemma solveCalls_present:
  "a \<in> set (solveCalls inputs) \<Longrightarrow> i_u a \<noteq> None \<and> i_theta a \<noteq> None"
  by (subst (asm) solveCalls.simps)
     (simp add: Let_def solveCalls_caseA split: if_splits)

lemma solveCalls_delegates:
  "a \<in> set (solveCalls inputs) \<Longrightarrow> solveProjectileSystem inputs = solveProjectileSystem a"
  apply (subst (asm) solveCalls.simps)
  apply (subst solveProjectileSystem.simps)
  apply (cases "i_u inputs"; cases "i_theta inputs"; cases "i_range inputs";
         cases "i_maxHeight inputs"; cases "i_flightTime inputs";
         simp add: Let_def solveCalls_caseA split: if_splits)
  done

lemma solveCalls_length: "length (solveCalls inputs) \<le> 1"
  by (subst solveCalls.simps) (simp add: Let_def solveCalls_caseA)

text \<open>
  C8. The solver terminates on every input (its definition above carries the termination
  proof), and its recursion is at most one call deep: the argument of a recursive call has
  \<open>u\<close> and \<open>theta\<close> present, so that call is answered by case A, which makes no
  further call and returns a solved state, and that state is the result of the outer call.
\<close>

theorem solve_recursion_depth:
  "length (solveCalls inputs) \<le> 1 \<and>
   (\<forall>a \<in> set (solveCalls inputs).
      i_u a \<noteq> None \<and> i_theta a \<noteq> None \<and> solveCalls a = [] \<and>
      solveProjectileSystem a \<noteq> None \<and>
      solveProjectileSystem inputs = solveProjectileSystem a)"
  using solveCalls_length solveCalls_present solveCalls_delegates solveCalls_caseA solve_caseA_Some
  by blast

theorem solve_recursion_depth_witness:
  "\<exists>a. solveCalls \<lparr>i_u = None, i_theta = Some (Fin 45), i_y0 = None, i_range = Some (Fin 50),
                     i_maxHeight = None, i_flightTime = None\<rparr> = [a] \<and>
       i_u a \<noteq> None \<and> i_theta a \<noteq> None \<and> solveCalls a = [] \<and>
       solveProjectileSystem \<lparr>i_u = None, i_theta = Some (Fin 45), i_y0 = None,
         i_range = Some (Fin 50), i_maxHeight = None, i_flightTime = None\<rparr> = solveProjectileSystem a"
proof -
  let ?inp = "\<lparr>i_u = None, i_theta = Some (Fin 45), i_y0 = None, i_range = Some (Fin 50),
                i_maxHeight = None, i_flightTime = None\<rparr>"
  have "solveCalls ?inp \<noteq> []"
    by (subst solveCalls.simps) (simp add: Let_def toRad_Fin)
  then obtain a as where eq: "solveCalls ?inp = a # as"
    by (cases "solveCalls ?inp") auto
  with solve_recursion_depth [of ?inp] have "as = []" and "a \<in> set (solveCalls ?inp)"
    by simp_all
  with eq solve_recursion_depth [of ?inp] show ?thesis
    by auto
qed

lemma solve_caseB:
  assumes "i_u inputs = None" "i_theta inputs = Some theta" "i_range inputs = Some rng"
  shows "solveProjectileSystem inputs =
    (let sin2Theta = Math_sin (js_mul (Fin 2) (toRad theta))
     in if js_le sin2Theta (Fin (1 / 10000)) then None
        else solveProjectileSystem
               (inputs\<lparr>i_u := Some (Math_sqrt (js_div (js_mul rng G) sin2Theta)), i_range := None\<rparr>))"
  using assms by (subst solveProjectileSystem.simps) (simp add: Let_def)

text \<open>
  C3. With \<open>u\<close> absent and \<open>theta\<close>, \<open>range\<close> present, the solver answers
  unsolvable exactly when \<open>sin (2 theta) \<le> 1e-4\<close> (theta in radians). When the guard
  passes, the result is what case A returns for the same inputs with
  \<open>u = sqrt (range g / sin (2 theta))\<close> filled in and \<open>range\<close> cleared. A range of 50
  at 0 or at 90 degrees is unsolvable.
\<close>

theorem solve_range_theta_guard:
  assumes "i_u inputs = None" and "i_theta inputs = Some (Fin th)" and "i_range inputs = Some (Fin rg)"
  shows "(solveProjectileSystem inputs = None \<longleftrightarrow> sin (2 * (th * pi / 180)) \<le> 1 / 10000) \<and>
    (1 / 10000 < sin (2 * (th * pi / 180)) \<longrightarrow>
       (\<exists>r. solveProjectileSystem inputs = Some r \<and>
            solveProjectileSystem
              (inputs\<lparr>i_u := Some (Math_sqrt (Fin (rg * (981 / 100) / sin (2 * (th * pi / 180))))),
                       i_range := None\<rparr>) = Some r \<and>
            s_u r = Math_sqrt (Fin (rg * (981 / 100) / sin (2 * (th * pi / 180)))) \<and>
            s_theta r = Fin th)) \<and>
    solveProjectileSystem \<lparr>i_u = None, i_theta = Some (Fin 0), i_y0 = None, i_range = Some (Fin 50),
                            i_maxHeight = None, i_flightTime = None\<rparr> = None \<and>
    solveProjectileSystem \<lparr>i_u = None, i_theta = Some (Fin 90), i_y0 = None, i_range = Some (Fin 50),
                            i_maxHeight = None, i_flightTime = None\<rparr> = None"
proof -
  let ?s = "sin (2 * (th * pi / 180))"
  let ?arg = "inputs\<lparr>i_u := Some (Math_sqrt (Fin (rg * (981 / 100) / ?s))), i_range := None\<rparr>"
  have red: "solveProjectileSystem inputs = (if ?s \<le> 1 / 10000 then None else solveProjectileSystem ?arg)"
    by (simp add: solve_caseB [OF assms] toRad_Fin G_def Let_def)
  have arg: "solveProjectileSystem ?arg \<noteq> None"
    by (rule solve_caseA_Some) (simp_all add: assms)
  have fields: "\<exists>r. solveProjectileSystem ?arg = Some r \<and>
      s_u r = Math_sqrt (Fin (rg * (981 / 100) / ?s)) \<and> s_theta r = Fin th"
    by (subst solve_caseA [where u = "Math_sqrt (Fin (rg * (981 / 100) / ?s))" and theta = "Fin th"])
       (simp_all add: assms Let_def)
  have z: "solveProjectileSystem \<lparr>i_u = None, i_theta = Some (Fin 0), i_y0 = None,
      i_range = Some (Fin 50), i_maxHeight = None, i_flightTime = None\<rparr> = None"
    by (subst solve_caseB [where theta = "Fin 0" and rng = "Fin 50"]) (simp_all add: toRad_Fin)
  have n: "solveProjectileSystem \<lparr>i_u = None, i_theta = Some (Fin 90), i_y0 = None,
      i_range = Some (Fin 50), i_maxHeight = None, i_flightTime = None\<rparr> = None"
    by (subst solve_caseB [where theta = "Fin 90" and rng = "Fin 50"]) (simp_all add: toRad_Fin)
  from red arg fields z n show ?thesis
    by (auto simp: not_le)
qed

theorem solve_range_theta_guard_witness:
  "\<exists>r. solveProjectileSystem \<lparr>i_u = None, i_theta = Some (Fin 45), i_y0 = None,
          i_range = Some (Fin (981 / 100)), i_maxHeight = None, i_flightTime = None\<rparr> = Some r \<and>
       s_u r = Fin (981 / 100) \<and> s_theta r = Fin 45"
proof -
  have sq: "sqrt (962361 / 10000) = 981 / 100"
    by (rule real_sqrt_unique) (simp_all add: power2_eq_square)
  show ?thesis
    using solve_range_theta_guard [of "\<lparr>i_u = None, i_theta = Some (Fin 45), i_y0 = None,
          i_range = Some (Fin (981 / 100)), i_maxHeight = None, i_flightTime = None\<rparr>" 45 "981 / 100"]
    by (auto simp: sq)
qed

text \<open>
  C7. When the guard of case B passes, solving from \<open>range\<close> and \<open>theta\<close> alone and
  solving from the derived \<open>u = sqrt (range g / sin (2 theta))\<close> and \<open>theta\<close> alone
  return the same solved state.
\<close>

theorem solve_range_theta_same_as_derived_u:
  assumes "1 / 10000 < sin (2 * (th * pi / 180))"
  shows "\<exists>r. solveProjectileSystem \<lparr>i_u = None, i_theta = Some (Fin th), i_y0 = None,
                i_range = Some (Fin rg), i_maxHeight = None, i_flightTime = None\<rparr> = Some r \<and>
              solveProjectileSystem
                \<lparr>i_u = Some (Math_sqrt (Fin (rg * (981 / 100) / sin (2 * (th * pi / 180))))),
                 i_theta = Some (Fin th), i_y0 = None, i_range = None, i_maxHeight = None,
                 i_flightTime = None\<rparr> = Some r"
proof -
  let ?s = "sin (2 * (th * pi / 180))"
  let ?inp = "\<lparr>i_u = None, i_theta = Some (Fin th), i_y0 = None,
                i_range = Some (Fin rg), i_maxHeight = None, i_flightTime = None\<rparr>"
  let ?arg = "\<lparr>i_u = Some (Math_sqrt (Fin (rg * (981 / 100) / ?s))),
                 i_theta = Some (Fin th), i_y0 = None, i_range = None, i_maxHeight = None,
                 i_flightTime = None\<rparr>"
  have "solveProjectileSystem ?inp = solveProjectileSystem ?arg"
    using assms
    by (subst solve_caseB [where theta = "Fin th" and rng = "Fin rg"])
       (simp_all add: toRad_Fin G_def Let_def)
  moreover have "solveProjectileSystem ?arg \<noteq> None"
    by (rule solve_caseA_Some) simp_all
  ultimately show ?thesis
    by auto
qed

theorem solve_range_theta_same_as_derived_u_witness:
  "\<exists>r. solveProjectileSystem \<lparr>i_u = None, i_theta = Some (Fin 45), i_y0 = None,
                i_range = Some (Fin 50), i_maxHeight = None, i_flightTime = None\<rparr> = Some r \<and>
       solveProjectileSystem
                \<lparr>i_u = Some (Fin (sqrt (981 / 2))),
                 i_theta = Some (Fin 45), i_y0 = None, i_range = None, i_maxHeight = None,
                 i_flightTime = None\<rparr> = Some r"
  using solve_range_theta_same_as_derived_u [of 45 50]
  by simp








section \<open>Properties of the trajectory sampler\<close>

lemma trajectoryLoop_map:
  "trajectoryLoop vars dt points i data = data @ map (trajectoryPoint vars dt) [i..points]"
proof (induction vars dt points i data rule: trajectoryLoop.induct)
  case (1 vars dt points i data)
  show ?case
  proof (cases "i \<le> points")
    case True
    then have "[i..points] = i # [i + 1..points]"
      by (simp add: upto_rec1)
    with True 1 show ?thesis
      by (subst trajectoryLoop.simps) simp
  next
    case False
    then show ?thesis
      by (subst trajectoryLoop.simps) simp
  qed
qed

lemma generateTrajectory_map:
  "generateTrajectory vars pts =
    (let points = (case pts of None \<Rightarrow> 100 | Some n \<Rightarrow> n) in
     if js_falsy (s_flightTime vars) \<or> js_le (s_flightTime vars) (Fin 0) then []
     else map (trajectoryPoint vars (js_div (s_flightTime vars) (Fin (of_int points)))) [0..points])"
  by (simp add: generateTrajectory_def trajectoryLoop_map Let_def)

lemma generateTrajectory_default: "generateTrajectory vars None = generateTrajectory vars (Some 100)"
  by (simp add: generateTrajectory_def)

lemma generateTrajectory_nonpositive:
  "js_le (s_flightTime v) (Fin 0) \<Longrightarrow> generateTrajectory v pts = []"
  by (simp add: generateTrajectory_def)

lemma trajectoryPoint_Fin:
  assumes "s_ux vars = Fin ux" "s_uy vars = Fin uy" "s_y0 vars = Fin y0"
  shows "trajectoryPoint vars (Fin d) i =
     \<lparr>p_x = Fin (ux * (of_int i * d)),
      p_y = Fin (max 0 (y0 + uy * (of_int i * d) - 1 / 2 * (981 / 100) * (of_int i * d) * (of_int i * d))),
      p_t = Fin (of_int i * d)\<rparr>"
  by (simp add: trajectoryPoint_def assms Let_def js_sub_def G_def max_def)


lemma generateTrajectory_positive:
  assumes "js_lt (Fin 0) (s_flightTime vars)"
  shows "generateTrajectory vars (Some points) =
     map (trajectoryPoint vars (js_div (s_flightTime vars) (Fin (of_int points)))) [0..points]"
  using assms by (cases "s_flightTime vars") (simp_all add: generateTrajectory_map js_falsy_def)

lemma trajectoryPoint_not_below: "\<not> js_lt (p_y (trajectoryPoint vars dt i)) (Fin 0)"
  by (simp add: trajectoryPoint_def Let_def)

text \<open>
  C5. A flight time of \<open>+Infinity\<close> is \<open>> 0\<close>, and the sampler then returns 101 samples
  whose first has \<open>t = 0 * Infinity\<close>, which is NaN, and so \<open>x\<close> and \<open>y\<close> NaN: the first
  sample is not \<open>(0, y0, 0)\<close>, its \<open>y\<close> is not \<open>\<ge> 0\<close>, and the times do not increase
  from 0.
\<close>

theorem generateTrajectory_samples_counterexample:
  "js_lt (Fin 0) (s_flightTime
      \<lparr>s_u = Fin 1, s_theta = Fin 0, s_y0 = Fin 0, s_range = PInf, s_maxHeight = Fin 0,
       s_flightTime = PInf, s_ux = Fin 1, s_uy = Fin 0\<rparr>) \<and>
   generateTrajectory
      \<lparr>s_u = Fin 1, s_theta = Fin 0, s_y0 = Fin 0, s_range = PInf, s_maxHeight = Fin 0,
       s_flightTime = PInf, s_ux = Fin 1, s_uy = Fin 0\<rparr> (Some 100) ! 0 =
     \<lparr>p_x = NaN, p_y = NaN, p_t = NaN\<rparr> \<and>
   \<not> js_le (Fin 0) NaN"
proof -
  have "[0..100] ! 0 = (0::int)"
    by (simp only: upto_rec1 [of 0 100]) simp
  then show ?thesis
    by (simp add: generateTrajectory_map js_falsy_def trajectoryPoint_def Let_def js_sub_def G_def)
qed

text \<open>
  C5, amended. For a state whose flight time is \<open>> 0\<close> (\<open>+Infinity\<close> included) and a
  positive count, the sampler returns count + 1 samples. Sample \<open>i\<close> is computed as
  \<open>t = i dt\<close> for \<open>dt = flightTime / count\<close>, \<open>x = ux t\<close> and \<open>y = y0 + uy t - g t t / 2\<close>,
  replaced by 0 when it is negative: no sample has \<open>y < 0\<close> (its \<open>y\<close> is \<open>\<ge> 0\<close> or NaN).
  When \<open>ux\<close>, \<open>uy\<close>, \<open>y0\<close> and the computed step \<open>dt\<close> are finite, the first sample has
  \<open>t = 0\<close> and is \<open>(0, y0, 0)\<close> if \<open>y0 \<ge> 0\<close>, and the times increase strictly with \<open>i\<close>
  if the computed step is positive. The count is 100 when it is not passed. For any state
  whose flight time is \<open>\<le> 0\<close> the result is empty.
\<close>

theorem generateTrajectory_samples:
  assumes "js_lt (Fin 0) (s_flightTime vars)" and "0 < points"
  shows "(let xs = generateTrajectory vars (Some points);
              dt = js_div (s_flightTime vars) (Fin (real_of_int points))
          in length xs = nat points + 1 \<and>
             (\<forall>i \<le> nat points. xs ! i =
                (let t = js_mul (Fin (real i)) dt;
                     x = js_mul (s_ux vars) t;
                     y = js_sub (js_add (s_y0 vars) (js_mul (s_uy vars) t))
                                (js_mul (js_mul (js_mul (Fin (1 / 2)) G) t) t)
                 in \<lparr>p_x = x, p_y = (if js_lt y (Fin 0) then Fin 0 else y), p_t = t\<rparr>)) \<and>
             (\<forall>i \<le> nat points. \<not> js_lt (p_y (xs ! i)) (Fin 0)) \<and>
             (\<forall>ux uy y0 d.
                s_ux vars = Fin ux \<and> s_uy vars = Fin uy \<and> s_y0 vars = Fin y0 \<and> dt = Fin d \<longrightarrow>
                p_t (xs ! 0) = Fin 0 \<and>
                (0 \<le> y0 \<longrightarrow> xs ! 0 = \<lparr>p_x = Fin 0, p_y = Fin y0, p_t = Fin 0\<rparr>) \<and>
                (0 < d \<longrightarrow> (\<forall>i j. i < j \<and> j \<le> nat points \<longrightarrow>
                   js_lt (p_t (xs ! i)) (p_t (xs ! j)))))) \<and>
         generateTrajectory vars None = generateTrajectory vars (Some 100) \<and>
         (\<forall>v pts. js_le (s_flightTime v) (Fin 0) \<longrightarrow> generateTrajectory v pts = [])"
proof -
  let ?xs = "generateTrajectory vars (Some points)"
  let ?dt = "js_div (s_flightTime vars) (Fin (real_of_int points))"
  have xs: "?xs = map (trajectoryPoint vars ?dt) [0..points]"
    by (rule generateTrajectory_positive [OF assms(1)])
  have len: "length ?xs = nat points + 1"
    using assms(2) by (simp add: xs)
  have nth: "?xs ! i = trajectoryPoint vars ?dt (int i)" if "i \<le> nat points" for i
  proof -
    from that assms(2) have "0 + int i \<le> points"
      by linarith
    then have "[0..points] ! i = int i"
      by (simp only: nth_upto)
    moreover from that assms(2) have "i < length [0..points]"
      by simp
    ultimately show ?thesis
      by (simp add: xs)
  qed
  have body: "\<forall>i \<le> nat points. ?xs ! i =
      (let t = js_mul (Fin (real i)) ?dt;
           x = js_mul (s_ux vars) t;
           y = js_sub (js_add (s_y0 vars) (js_mul (s_uy vars) t))
                      (js_mul (js_mul (js_mul (Fin (1 / 2)) G) t) t)
       in \<lparr>p_x = x, p_y = (if js_lt y (Fin 0) then Fin 0 else y), p_t = t\<rparr>)"
    by (simp add: nth trajectoryPoint_def)
  have ground: "\<forall>i \<le> nat points. \<not> js_lt (p_y (?xs ! i)) (Fin 0)"
    by (simp add: nth trajectoryPoint_not_below)
  have fin: "p_t (?xs ! 0) = Fin 0 \<and>
      (0 \<le> y0 \<longrightarrow> ?xs ! 0 = \<lparr>p_x = Fin 0, p_y = Fin y0, p_t = Fin 0\<rparr>) \<and>
      (0 < d \<longrightarrow> (\<forall>i j. i < j \<and> j \<le> nat points \<longrightarrow> js_lt (p_t (?xs ! i)) (p_t (?xs ! j))))"
    if h: "s_ux vars = Fin ux" "s_uy vars = Fin uy" "s_y0 vars = Fin y0" "?dt = Fin d"
    for ux uy y0 d
  proof -
    have pt: "?xs ! i = \<lparr>p_x = Fin (ux * (real i * d)),
        p_y = Fin (max 0 (y0 + uy * (real i * d) - 1 / 2 * (981 / 100) * (real i * d) * (real i * d))),
        p_t = Fin (real i * d)\<rparr>" if "i \<le> nat points" for i
      using trajectoryPoint_Fin [OF h(1-3), of d "int i"] by (simp add: nth [OF that] h(4))
    have t0: "p_t (?xs ! 0) = Fin 0"
      by (simp add: pt)
    have first: "?xs ! 0 = \<lparr>p_x = Fin 0, p_y = Fin y0, p_t = Fin 0\<rparr>" if "0 \<le> y0"
      using that by (simp add: pt)
    have incr: "js_lt (p_t (?xs ! i)) (p_t (?xs ! j))" if "0 < d" "i < j" "j \<le> nat points" for i j
    proof -
      from that have i: "i \<le> nat points"
        by simp
      from that(1,2) have "real i * d < real j * d"
        by (intro mult_strict_right_mono) simp_all
      then show ?thesis
        by (simp add: pt [OF i] pt [OF that(3)])
    qed
    from t0 first incr show ?thesis
      by blast
  qed
  from len body ground fin generateTrajectory_default generateTrajectory_nonpositive
  show ?thesis
    unfolding Let_def by blast
qed

theorem generateTrajectory_samples_witness:
  "length (generateTrajectory
      \<lparr>s_u = Fin 5, s_theta = Fin 0, s_y0 = Fin (981 / 200), s_range = Fin 5,
       s_maxHeight = Fin (981 / 200), s_flightTime = Fin 1, s_ux = Fin 5, s_uy = Fin 0\<rparr>
      (Some 100)) = 101 \<and>
   generateTrajectory
      \<lparr>s_u = Fin 5, s_theta = Fin 0, s_y0 = Fin (981 / 200), s_range = Fin 5,
       s_maxHeight = Fin (981 / 200), s_flightTime = Fin 1, s_ux = Fin 5, s_uy = Fin 0\<rparr>
      (Some 100) ! 50 = \<lparr>p_x = Fin (5 / 2), p_y = Fin (2943 / 800), p_t = Fin (1 / 2)\<rparr> \<and>
   generateTrajectory
      \<lparr>s_u = Fin 5, s_theta = Fin 0, s_y0 = Fin (981 / 200), s_range = Fin 5,
       s_maxHeight = Fin (981 / 200), s_flightTime = Fin 1, s_ux = Fin 5, s_uy = Fin 0\<rparr>
      (Some 100) ! 0 = \<lparr>p_x = Fin 0, p_y = Fin (981 / 200), p_t = Fin 0\<rparr> \<and>
   js_lt (p_t (generateTrajectory
      \<lparr>s_u = Fin 5, s_theta = Fin 0, s_y0 = Fin (981 / 200), s_range = Fin 5,
       s_maxHeight = Fin (981 / 200), s_flightTime = Fin 1, s_ux = Fin 5, s_uy = Fin 0\<rparr>
      (Some 100) ! 0))
     (p_t (generateTrajectory
      \<lparr>s_u = Fin 5, s_theta = Fin 0, s_y0 = Fin (981 / 200), s_range = Fin 5,
       s_maxHeight = Fin (981 / 200), s_flightTime = Fin 1, s_ux = Fin 5, s_uy = Fin 0\<rparr>
      (Some 100) ! 1))"
proof -
  let ?v = "\<lparr>s_u = Fin 5, s_theta = Fin 0, s_y0 = Fin (981 / 200), s_range = Fin 5,
       s_maxHeight = Fin (981 / 200), s_flightTime = Fin 1, s_ux = Fin 5, s_uy = Fin 0\<rparr>"
  let ?xs = "generateTrajectory ?v (Some 100)"
  have h: "js_lt (Fin 0) (s_flightTime ?v)" "(0::int) < 100"
    by simp_all
  note t = generateTrajectory_samples [OF h, unfolded Let_def]
  from t have len: "length ?xs = 101"
    by simp
  from t have "\<forall>i \<le> nat 100. ?xs ! i =
      \<lparr>p_x = js_mul (s_ux ?v) (js_mul (Fin (real i)) (js_div (s_flightTime ?v) (Fin (real_of_int 100)))),
       p_y = (if js_lt (js_sub (js_add (s_y0 ?v) (js_mul (s_uy ?v)
                  (js_mul (Fin (real i)) (js_div (s_flightTime ?v) (Fin (real_of_int 100))))))
                (js_mul (js_mul (js_mul (Fin (1 / 2)) G)
                  (js_mul (Fin (real i)) (js_div (s_flightTime ?v) (Fin (real_of_int 100)))))
                  (js_mul (Fin (real i)) (js_div (s_flightTime ?v) (Fin (real_of_int 100)))))) (Fin 0)
              then Fin 0
              else js_sub (js_add (s_y0 ?v) (js_mul (s_uy ?v)
                  (js_mul (Fin (real i)) (js_div (s_flightTime ?v) (Fin (real_of_int 100))))))
                (js_mul (js_mul (js_mul (Fin (1 / 2)) G)
                  (js_mul (Fin (real i)) (js_div (s_flightTime ?v) (Fin (real_of_int 100)))))
                  (js_mul (Fin (real i)) (js_div (s_flightTime ?v) (Fin (real_of_int 100)))))),
       p_t = js_mul (Fin (real i)) (js_div (s_flightTime ?v) (Fin (real_of_int 100)))\<rparr>"
    by blast
  then have "?xs ! 50 =
      \<lparr>p_x = js_mul (s_ux ?v) (js_mul (Fin (real 50)) (js_div (s_flightTime ?v) (Fin (real_of_int 100)))),
       p_y = (if js_lt (js_sub (js_add (s_y0 ?v) (js_mul (s_uy ?v)
                  (js_mul (Fin (real 50)) (js_div (s_flightTime ?v) (Fin (real_of_int 100))))))
                (js_mul (js_mul (js_mul (Fin (1 / 2)) G)
                  (js_mul (Fin (real 50)) (js_div (s_flightTime ?v) (Fin (real_of_int 100)))))
                  (js_mul (Fin (real 50)) (js_div (s_flightTime ?v) (Fin (real_of_int 100)))))) (Fin 0)
              then Fin 0
              else js_sub (js_add (s_y0 ?v) (js_mul (s_uy ?v)
                  (js_mul (Fin (real 50)) (js_div (s_flightTime ?v) (Fin (real_of_int 100))))))
                (js_mul (js_mul (js_mul (Fin (1 / 2)) G)
                  (js_mul (Fin (real 50)) (js_div (s_flightTime ?v) (Fin (real_of_int 100)))))
                  (js_mul (Fin (real 50)) (js_div (s_flightTime ?v) (Fin (real_of_int 100)))))),
       p_t = js_mul (Fin (real 50)) (js_div (s_flightTime ?v) (Fin (real_of_int 100)))\<rparr>"
    by simp
  then have mid: "?xs ! 50 = \<lparr>p_x = Fin (5 / 2), p_y = Fin (2943 / 800), p_t = Fin (1 / 2)\<rparr>"
    by (simp add: G_def js_sub_def)
  from t have "s_ux ?v = Fin 5 \<and> s_uy ?v = Fin 0 \<and> s_y0 ?v = Fin (981 / 200) \<and>
      js_div (s_flightTime ?v) (Fin (real_of_int 100)) = Fin (1 / 100) \<longrightarrow>
      p_t (?xs ! 0) = Fin 0 \<and>
      (0 \<le> (981 / 200 :: real) \<longrightarrow> ?xs ! 0 = \<lparr>p_x = Fin 0, p_y = Fin (981 / 200), p_t = Fin 0\<rparr>) \<and>
      (0 < (1 / 100 :: real) \<longrightarrow> (\<forall>i j. i < j \<and> j \<le> nat 100 \<longrightarrow>
          js_lt (p_t (?xs ! i)) (p_t (?xs ! j))))"
    by blast
  then have first: "?xs ! 0 = \<lparr>p_x = Fin 0, p_y = Fin (981 / 200), p_t = Fin 0\<rparr>"
    and mono: "\<forall>i j. i < j \<and> j \<le> nat 100 \<longrightarrow> js_lt (p_t (?xs ! i)) (p_t (?xs ! j))"
    by simp_all
  from mono have "(0::nat) < 1 \<and> (1::nat) \<le> nat 100 \<longrightarrow> js_lt (p_t (?xs ! 0)) (p_t (?xs ! 1))"
    by blast
  then have incr: "js_lt (p_t (?xs ! 0)) (p_t (?xs ! 1))"
    by simp
  from len mid first incr show ?thesis
    by simp
qed



lemma solve_caseA_Fin:
  assumes "i_u inputs = Some (Fin ur)" and "i_theta inputs = Some (Fin th)"
    and "orZero (i_y0 inputs) = Fin yr"
    and "0 \<le> (ur * sin (th * pi / 180))\<^sup>2 + 2 * (981 / 100) * yr"
  shows "solveProjectileSystem inputs =
    Some \<lparr>s_u = Fin ur, s_theta = Fin th, s_y0 = Fin yr,
          s_range = Fin (ur * cos (th * pi / 180) *
            ((ur * sin (th * pi / 180) + sqrt ((ur * sin (th * pi / 180))\<^sup>2 + 2 * (981 / 100) * yr)) / (981 / 100))),
          s_maxHeight = Fin (yr + ur * sin (th * pi / 180) * (ur * sin (th * pi / 180) / (981 / 100))
            - 1 / 2 * (981 / 100) * (ur * sin (th * pi / 180) / (981 / 100))\<^sup>2),
          s_flightTime = Fin ((ur * sin (th * pi / 180)
            + sqrt ((ur * sin (th * pi / 180))\<^sup>2 + 2 * (981 / 100) * yr)) / (981 / 100)),
          s_ux = Fin (ur * cos (th * pi / 180)), s_uy = Fin (ur * sin (th * pi / 180))\<rparr>"
  using assms(4)
  by (simp add: solve_caseA [OF assms(1,2)] assms(3) toRad_Fin G_def Let_def js_sub_def)




text \<open>
  C10. The sampler does not return the empty sequence for every non-finite flight time:
  \<open>+Infinity\<close> is truthy and not \<open>\<le> 0\<close>, so the loop runs and pushes 101 samples.
\<close>

theorem generateTrajectory_infinite_flightTime_counterexample:
  "\<not> isFinite (s_flightTime
        \<lparr>s_u = Fin 1, s_theta = Fin 0, s_y0 = Fin 0, s_range = PInf, s_maxHeight = Fin 0,
         s_flightTime = PInf, s_ux = Fin 1, s_uy = Fin 0\<rparr>) \<and>
   length (generateTrajectory
        \<lparr>s_u = Fin 1, s_theta = Fin 0, s_y0 = Fin 0, s_range = PInf, s_maxHeight = Fin 0,
         s_flightTime = PInf, s_ux = Fin 1, s_uy = Fin 0\<rparr> None) = 101"
  by (simp add: generateTrajectory_map js_falsy_def)

text \<open>
  C10, amended. For the default count and for every count \<open>\<ge> 0\<close>, the sampler returns
  the empty sequence exactly when the flight time is NaN, zero or negative
  (\<open>-Infinity\<close> included). A non-empty output implies that the flight time is a
  positive real number or \<open>+Infinity\<close>.
\<close>

theorem generateTrajectory_empty_iff:
  assumes "pts = None \<or> (\<exists>n\<ge>0. pts = Some n)"
  shows "(generateTrajectory vars pts = [] \<longleftrightarrow>
            s_flightTime vars = NaN \<or> js_le (s_flightTime vars) (Fin 0)) \<and>
         (generateTrajectory vars pts \<noteq> [] \<longrightarrow>
            s_flightTime vars = PInf \<or> (\<exists>T>0. s_flightTime vars = Fin T))"
  using assms
  by (cases "s_flightTime vars") (auto simp: generateTrajectory_map js_falsy_def split: if_splits)

theorem generateTrajectory_empty_iff_witness:
  "generateTrajectory
      \<lparr>s_u = Fin 1, s_theta = Fin 0, s_y0 = Fin 0, s_range = NaN, s_maxHeight = Fin 0,
       s_flightTime = NaN, s_ux = Fin 1, s_uy = Fin 0\<rparr> (Some 100) = [] \<and>
   generateTrajectory
      \<lparr>s_u = Fin 5, s_theta = Fin 0, s_y0 = Fin (981 / 200), s_range = Fin 5,
       s_maxHeight = Fin (981 / 200), s_flightTime = Fin 1, s_ux = Fin 5, s_uy = Fin 0\<rparr>
      (Some 100) \<noteq> []"
  using generateTrajectory_empty_iff [of "Some 100"
      "\<lparr>s_u = Fin 1, s_theta = Fin 0, s_y0 = Fin 0, s_range = NaN, s_maxHeight = Fin 0,
       s_flightTime = NaN, s_ux = Fin 1, s_uy = Fin 0\<rparr>"]
    generateTrajectory_empty_iff [of "Some 100"
      "\<lparr>s_u = Fin 5, s_theta = Fin 0, s_y0 = Fin (981 / 200), s_range = Fin 5,
       s_maxHeight = Fin (981 / 200), s_flightTime = Fin 1, s_ux = Fin 5, s_uy = Fin 0\<rparr>"]
  by simp

section \<open>Properties of the step synthesizer\<close>

lemma if_Cons_empty: "((if c then x # xs else r) = []) \<longleftrightarrow> (\<not> c \<and> r = [])"
  by simp

lemma stepsU_empty_iff:
  "stepsU inputs solved theta = [] \<longleftrightarrow>
     \<not> (i_range inputs \<noteq> None \<and> i_theta inputs \<noteq> None) \<and>
     \<not> (i_maxHeight inputs \<noteq> None \<and> i_theta inputs \<noteq> None) \<and>
     \<not> (i_flightTime inputs \<noteq> None \<and> i_theta inputs \<noteq> None) \<and>
     \<not> (i_range inputs \<noteq> None \<and> i_flightTime inputs \<noteq> None)"
  unfolding stepsU_def by (simp only: if_Cons_empty simp_thms)

lemma stepsTheta_empty_iff:
  "stepsTheta inputs solved = [] \<longleftrightarrow> \<not> (i_range inputs \<noteq> None \<and> i_flightTime inputs \<noteq> None)"
  unfolding stepsTheta_def by (simp only: if_Cons_empty simp_thms)

lemma steps_nonempty:
  "stepsRange solved \<noteq> []" "stepsMaxHeight solved \<noteq> []" "stepsFlightTime solved \<noteq> []"
  "stepsHeightAtTime solved t \<noteq> []" "stepsVelocityAtTime solved t \<noteq> []"
  "stepsTimeToMaxHeight solved \<noteq> []" "stepsDistanceAtTime solved t \<noteq> []"
  "stepsTimeToDistance solved x \<noteq> []"
  unfolding stepsRange_def stepsMaxHeight_def stepsFlightTime_def stepsHeightAtTime_def
      stepsVelocityAtTime_def stepsTimeToMaxHeight_def stepsDistanceAtTime_def
      stepsTimeToDistance_def Let_def
  by (simp_all only: list.distinct not_False_eq_True)

text \<open>
  C9. \<open>generateSteps\<close> returns the empty sequence, and nothing else, when the target
  matches no pattern: \<open>theta\<close> without both range and flight time among the inputs,
  \<open>u\<close> without one of its four input pairs, a time-based derived quantity without
  \<open>time\<close>, \<open>timeToDistance\<close> without \<open>distance\<close>, or a key that is not one of the ten
  targets. The model is total, so no path raises an error.
\<close>

theorem generateSteps_empty_iff:
  "generateSteps target inputs solved extraParams = [] \<longleftrightarrow>
     (target = ''u'' \<and>
        \<not> (i_range inputs \<noteq> None \<and> i_theta inputs \<noteq> None) \<and>
        \<not> (i_maxHeight inputs \<noteq> None \<and> i_theta inputs \<noteq> None) \<and>
        \<not> (i_flightTime inputs \<noteq> None \<and> i_theta inputs \<noteq> None) \<and>
        \<not> (i_range inputs \<noteq> None \<and> i_flightTime inputs \<noteq> None)) \<or>
     (target = ''theta'' \<and> \<not> (i_range inputs \<noteq> None \<and> i_flightTime inputs \<noteq> None)) \<or>
     (target \<in> {''heightAtTime'', ''velocityAtTime'', ''distanceAtTime''} \<and>
        extraTime extraParams = None) \<or>
     (target = ''timeToDistance'' \<and> extraDistance extraParams = None) \<or>
     target \<notin> {''u'', ''theta'', ''range'', ''maxHeight'', ''flightTime'', ''heightAtTime'',
                ''velocityAtTime'', ''timeToMaxHeight'', ''distanceAtTime'', ''timeToDistance''}"
proof -
  consider (u) "target = ''u''" | (theta) "target = ''theta''" | (range) "target = ''range''"
    | (maxHeight) "target = ''maxHeight''" | (flightTime) "target = ''flightTime''"
    | (heightAtTime) "target = ''heightAtTime''" | (velocityAtTime) "target = ''velocityAtTime''"
    | (timeToMaxHeight) "target = ''timeToMaxHeight''" | (distanceAtTime) "target = ''distanceAtTime''"
    | (timeToDistance) "target = ''timeToDistance''"
    | (other) "target \<notin> {''u'', ''theta'', ''range'', ''maxHeight'', ''flightTime'', ''heightAtTime'',
                ''velocityAtTime'', ''timeToMaxHeight'', ''distanceAtTime'', ''timeToDistance''}"
    by auto
  then show ?thesis
  proof cases
    case u
    then show ?thesis
      by (simp add: generateSteps_def stepsU_empty_iff)
  next
    case theta
    then show ?thesis
      by (simp add: generateSteps_def stepsTheta_empty_iff)
  next
    case range
    then show ?thesis
      by (simp add: generateSteps_def steps_nonempty)
  next
    case maxHeight
    then show ?thesis
      by (simp add: generateSteps_def steps_nonempty)
  next
    case flightTime
    then show ?thesis
      by (simp add: generateSteps_def steps_nonempty)
  next
    case heightAtTime
    then show ?thesis
      by (simp add: generateSteps_def steps_nonempty)
  next
    case velocityAtTime
    then show ?thesis
      by (simp add: generateSteps_def steps_nonempty)
  next
    case timeToMaxHeight
    then show ?thesis
      by (simp add: generateSteps_def steps_nonempty)
  next
    case distanceAtTime
    then show ?thesis
      by (simp add: generateSteps_def steps_nonempty)
  next
    case timeToDistance
    then show ?thesis
      by (simp add: generateSteps_def steps_nonempty)
  next
    case other
    then show ?thesis
      by (simp add: generateSteps_def)
  qed
qed

theorem generateSteps_empty_iff_witness:
  "generateSteps ''theta''
     \<lparr>i_u = Some (Fin 5), i_theta = Some (Fin 0), i_y0 = Some (Fin (981 / 200)),
      i_range = None, i_maxHeight = None, i_flightTime = None\<rparr>
     \<lparr>s_u = Fin 5, s_theta = Fin 0, s_y0 = Fin (981 / 200), s_range = Fin 5,
      s_maxHeight = Fin (981 / 200), s_flightTime = Fin 1, s_ux = Fin 5, s_uy = Fin 0\<rparr> None = [] \<and>
   generateSteps ''heightAtTime''
     \<lparr>i_u = Some (Fin 5), i_theta = Some (Fin 0), i_y0 = Some (Fin (981 / 200)),
      i_range = None, i_maxHeight = None, i_flightTime = None\<rparr>
     \<lparr>s_u = Fin 5, s_theta = Fin 0, s_y0 = Fin (981 / 200), s_range = Fin 5,
      s_maxHeight = Fin (981 / 200), s_flightTime = Fin 1, s_ux = Fin 5, s_uy = Fin 0\<rparr>
     (Some \<lparr>e_time = None, e_distance = Some (Fin 2)\<rparr>) = [] \<and>
   generateSteps ''viscosity''
     \<lparr>i_u = Some (Fin 5), i_theta = Some (Fin 0), i_y0 = Some (Fin (981 / 200)),
      i_range = None, i_maxHeight = None, i_flightTime = None\<rparr>
     \<lparr>s_u = Fin 5, s_theta = Fin 0, s_y0 = Fin (981 / 200), s_range = Fin 5,
      s_maxHeight = Fin (981 / 200), s_flightTime = Fin 1, s_ux = Fin 5, s_uy = Fin 0\<rparr> None = [] \<and>
   generateSteps ''range''
     \<lparr>i_u = Some (Fin 5), i_theta = Some (Fin 0), i_y0 = Some (Fin (981 / 200)),
      i_range = None, i_maxHeight = None, i_flightTime = None\<rparr>
     \<lparr>s_u = Fin 5, s_theta = Fin 0, s_y0 = Fin (981 / 200), s_range = Fin 5,
      s_maxHeight = Fin (981 / 200), s_flightTime = Fin 1, s_ux = Fin 5, s_uy = Fin 0\<rparr> None \<noteq> []"
proof -
  let ?inp = "\<lparr>i_u = Some (Fin 5), i_theta = Some (Fin 0), i_y0 = Some (Fin (981 / 200)),
      i_range = None, i_maxHeight = None, i_flightTime = None\<rparr>"
  let ?r = "\<lparr>s_u = Fin 5, s_theta = Fin 0, s_y0 = Fin (981 / 200), s_range = Fin 5,
      s_maxHeight = Fin (981 / 200), s_flightTime = Fin 1, s_ux = Fin 5, s_uy = Fin 0\<rparr>"
  have "generateSteps ''theta'' ?inp ?r None = []"
    using generateSteps_empty_iff [of "''theta''" ?inp ?r None] by simp
  moreover have "generateSteps ''heightAtTime'' ?inp ?r (Some \<lparr>e_time = None, e_distance = Some (Fin 2)\<rparr>) = []"
    using generateSteps_empty_iff [of "''heightAtTime''" ?inp ?r "Some \<lparr>e_time = None, e_distance = Some (Fin 2)\<rparr>"]
    by (simp add: extraTime_def)
  moreover have "generateSteps ''viscosity'' ?inp ?r None = []"
    using generateSteps_empty_iff [of "''viscosity''" ?inp ?r None] by simp
  moreover have "generateSteps ''range'' ?inp ?r None \<noteq> []"
    using generateSteps_empty_iff [of "''range''" ?inp ?r None] by (simp add: extraTime_def extraDistance_def)
  ultimately show ?thesis
    by blast
qed

text \<open>
  C2. The step texts ignore the initial height. For \<open>u = 19.62\<close>, \<open>theta = 30\<close>,
  \<open>y0 = 14.715\<close> the solver gives \<open>uy = 9.81\<close> and a flight time of 3, so the time
  to the apex is \<open>uy / g = 1\<close>. The \<open>timeToMaxHeight\<close> steps display the quotient of
  9.81 and \<open>g\<close> and then print half the flight time, 1.50 instead of 1.00. The
  \<open>heightAtTime\<close> steps for \<open>t = 0.5\<close> display the formula
  \<open>9.81 * 0.50 - 0.5 g 0.50\<^sup>2\<close>, which is 3.67875, and then print 18.39, the value
  with \<open>y0\<close> added.
\<close>

theorem generateSteps_ignores_initial_height:
  "solveProjectileSystem
     \<lparr>i_u = Some (Fin (981 / 50)), i_theta = Some (Fin 30), i_y0 = Some (Fin (2943 / 200)),
      i_range = None, i_maxHeight = None, i_flightTime = None\<rparr> =
   Some \<lparr>s_u = Fin (981 / 50), s_theta = Fin 30, s_y0 = Fin (2943 / 200),
         s_range = Fin (2943 * sqrt 3 / 100), s_maxHeight = Fin (981 / 50), s_flightTime = Fin 3,
         s_ux = Fin (981 * sqrt 3 / 100), s_uy = Fin (981 / 100)\<rparr> \<and>
   js_div (Fin (981 / 100)) G = Fin 1 \<and>
   map latex (drop 2 (generateSteps ''timeToMaxHeight''
     \<lparr>i_u = Some (Fin (981 / 50)), i_theta = Some (Fin 30), i_y0 = Some (Fin (2943 / 200)),
      i_range = None, i_maxHeight = None, i_flightTime = None\<rparr>
     \<lparr>s_u = Fin (981 / 50), s_theta = Fin 30, s_y0 = Fin (2943 / 200),
      s_range = Fin (2943 * sqrt 3 / 100), s_maxHeight = Fin (981 / 50), s_flightTime = Fin 3,
      s_ux = Fin (981 * sqrt 3 / 100), s_uy = Fin (981 / 100)\<rparr> None)) =
     [[Txt ''t = '', Tex ''frac'', Txt ''{'', Fixed2 (Fin (981 / 100)), Txt ''}{'', Num (Fin (981 / 100)),
       Txt ''}''],
      [Txt ''t '', Tex ''approx'', Txt '' '', Fixed2 (Fin (3 / 2)), Txt '' '', Tex ''text'',
       Txt ''{ s}'']] \<and>
   toFixedHundredths (3 / 2) = 150 \<and> toFixedHundredths 1 = 100 \<and>
   map latex (drop 2 (generateSteps ''heightAtTime''
     \<lparr>i_u = Some (Fin (981 / 50)), i_theta = Some (Fin 30), i_y0 = Some (Fin (2943 / 200)),
      i_range = None, i_maxHeight = None, i_flightTime = None\<rparr>
     \<lparr>s_u = Fin (981 / 50), s_theta = Fin 30, s_y0 = Fin (2943 / 200),
      s_range = Fin (2943 * sqrt 3 / 100), s_maxHeight = Fin (981 / 50), s_flightTime = Fin 3,
      s_ux = Fin (981 * sqrt 3 / 100), s_uy = Fin (981 / 100)\<rparr>
     (Some \<lparr>e_time = Some (Fin (1 / 2)), e_distance = None\<rparr>))) =
     [[Txt ''s_y = ('', Fixed2 (Fin (981 / 100)), Txt '' '', Tex ''cdot'', Txt '' '', Fixed2 (Fin (1 / 2)),
       Txt '') - (0.5 '', Tex ''cdot'', Txt '' '', Num (Fin (981 / 100)), Txt '' '', Tex ''cdot'',
       Txt '' '', Fixed2 (Fin (1 / 2)), Txt ''^2)''],
      [Txt ''s_y '', Tex ''approx'', Txt '' '', Fixed2 (Fin (2943 / 160)), Txt '' '', Tex ''text'',
       Txt ''{ m}'']] \<and>
   js_sub (js_mul (Fin (981 / 100)) (Fin (1 / 2)))
          (js_mul (js_mul (Fin (1 / 2)) (Fin (981 / 100))) (Math_pow2 (Fin (1 / 2))))
     = Fin (2943 / 800) \<and>
   toFixedHundredths (2943 / 160) = 1839 \<and> toFixedHundredths (2943 / 800) = 368"
proof -
  let ?inp = "\<lparr>i_u = Some (Fin (981 / 50)), i_theta = Some (Fin 30), i_y0 = Some (Fin (2943 / 200)),
      i_range = None, i_maxHeight = None, i_flightTime = None\<rparr>"
  let ?r = "\<lparr>s_u = Fin (981 / 50), s_theta = Fin 30, s_y0 = Fin (2943 / 200),
      s_range = Fin (2943 * sqrt 3 / 100), s_maxHeight = Fin (981 / 50), s_flightTime = Fin 3,
      s_ux = Fin (981 * sqrt 3 / 100), s_uy = Fin (981 / 100)\<rparr>"
  have sn: "sin (30 * pi / 180 :: real) = 1 / 2"
    by (simp add: sin_30)
  have cs: "cos (30 * pi / 180 :: real) = sqrt 3 / 2"
    by (simp add: cos_30)
  have sq: "sqrt ((981 / 50 * (1 / 2))\<^sup>2 + 2 * (981 / 100) * (2943 / 200)) = 981 / 50"
    by (rule real_sqrt_unique) (simp_all add: power2_eq_square)
  have D: "0 \<le> ((981 / 50 :: real) * sin (30 * pi / 180))\<^sup>2 + 2 * (981 / 100) * (2943 / 200)"
    by (simp add: sn)
  have y0: "orZero (i_y0 ?inp) = Fin (2943 / 200)"
    by (simp add: orZero_def js_falsy_def)
  have solved: "solveProjectileSystem ?inp = Some ?r"
    using solve_caseA_Fin [of ?inp "981 / 50" 30 "2943 / 200", OF _ _ y0 D]
    unfolding sn cs sq by (simp add: power2_eq_square)
  have apex: "js_div (Fin (981 / 100)) G = Fin 1"
    by (simp add: G_def)
  have t1: "map latex (drop 2 (generateSteps ''timeToMaxHeight'' ?inp ?r None)) =
     [[Txt ''t = '', Tex ''frac'', Txt ''{'', Fixed2 (Fin (981 / 100)), Txt ''}{'', Num (Fin (981 / 100)),
       Txt ''}''],
      [Txt ''t '', Tex ''approx'', Txt '' '', Fixed2 (Fin (3 / 2)), Txt '' '', Tex ''text'',
       Txt ''{ s}'']]"
    by (simp add: generateSteps_def stepsTimeToMaxHeight_def G_def Let_def)
  have t2: "map latex (drop 2 (generateSteps ''heightAtTime'' ?inp ?r
       (Some \<lparr>e_time = Some (Fin (1 / 2)), e_distance = None\<rparr>))) =
     [[Txt ''s_y = ('', Fixed2 (Fin (981 / 100)), Txt '' '', Tex ''cdot'', Txt '' '', Fixed2 (Fin (1 / 2)),
       Txt '') - (0.5 '', Tex ''cdot'', Txt '' '', Num (Fin (981 / 100)), Txt '' '', Tex ''cdot'',
       Txt '' '', Fixed2 (Fin (1 / 2)), Txt ''^2)''],
      [Txt ''s_y '', Tex ''approx'', Txt '' '', Fixed2 (Fin (2943 / 160)), Txt '' '', Tex ''text'',
       Txt ''{ m}'']]"
    by (simp add: generateSteps_def stepsHeightAtTime_def extraTime_def G_def Let_def toRad_Fin
        sin_30 js_sub_def orZero_def js_falsy_def power2_eq_square)
  have f: "toFixedHundredths (3 / 2) = 150" "toFixedHundredths 1 = 100"
    "toFixedHundredths (2943 / 160) = 1839" "toFixedHundredths (2943 / 800) = 368"
    by (simp_all add: toFixedHundredths_def)
  have v: "js_sub (js_mul (Fin (981 / 100)) (Fin (1 / 2)))
      (js_mul (js_mul (Fin (1 / 2)) (Fin (981 / 100))) (Math_pow2 (Fin (1 / 2)))) = Fin (2943 / 800)"
    by (simp add: js_sub_def power2_eq_square)
  from solved apex t1 t2 f v show ?thesis
    by (simp only: simp_thms)
qed

end
